theory Spec2Isabelle
  imports Main "HOL-Library.Word"
begin

section \<open>Python values\<close>

text \<open>
  The SDK handles the values that \<^verbatim>\<open>response.json()\<close> returns: \<^verbatim>\<open>None\<close>, booleans,
  unbounded integers, floats, strings, lists and dictionaries with string keys. A float is
  only ever carried from the wire into a model field, never computed with, so it is
  represented by its 64 bits. A dictionary is an association list (JSON objects as decoded
  have one entry per key); lookups go through \<^term>\<open>map_of\<close>.
\<close>

datatype pyfloat = Float64 "64 word"

datatype pyval =
    PNone
  | PBool bool
  | PInt int
  | PFloat pyfloat
  | PStr string
  | PList "pyval list"
  | PDict "(string \<times> pyval) list"

type_synonym pydict = "(string \<times> pyval) list"

section \<open>models.py\<close>

text \<open>
  The four entities are pydantic models: a class body of annotated fields, where a field
  with the default \<^verbatim>\<open>None\<close> is optional. \<^verbatim>\<open>Content(**data)\<close> runs pydantic's
  validation of each declared field against its annotation, ignores keys that are not
  fields, and raises pydantic's \<^verbatim>\<open>ValidationError\<close> when a required field is absent or
  a value is rejected.

  A value that already has the annotated type is accepted as it is. What pydantic does
  with a value of another type (turning \<^verbatim>\<open>"5"\<close> into \<^verbatim>\<open>5\<close> for an \<^verbatim>\<open>int\<close> field, say)
  depends on the installed version (setup.py admits every pydantic from 1.8.0 on), so
  these conversions are a parameter of the model: each returns the converted value, or
  \<^term>\<open>None\<close> where pydantic rejects the input.
\<close>

record coercion =
  to_str :: "pyval \<Rightarrow> string option"
  to_int :: "pyval \<Rightarrow> int option"
  to_float :: "pyval \<Rightarrow> pyfloat option"
  to_bool :: "pyval \<Rightarrow> bool option"
  to_dict :: "pyval \<Rightarrow> pydict option"
  to_list :: "pyval \<Rightarrow> pyval list option"

definition validate_str :: "coercion \<Rightarrow> pyval \<Rightarrow> string option" where
  "validate_str L v = (case v of PStr s \<Rightarrow> Some s | _ \<Rightarrow> to_str L v)"

definition validate_int :: "coercion \<Rightarrow> pyval \<Rightarrow> int option" where
  "validate_int L v = (case v of PInt i \<Rightarrow> Some i | _ \<Rightarrow> to_int L v)"

definition validate_float :: "coercion \<Rightarrow> pyval \<Rightarrow> pyfloat option" where
  "validate_float L v = (case v of PFloat f \<Rightarrow> Some f | _ \<Rightarrow> to_float L v)"

definition validate_bool :: "coercion \<Rightarrow> pyval \<Rightarrow> bool option" where
  "validate_bool L v = (case v of PBool b \<Rightarrow> Some b | _ \<Rightarrow> to_bool L v)"

definition validate_any :: "pyval \<Rightarrow> pyval option" where
  "validate_any v = Some v"

text \<open>\<^verbatim>\<open>Dict[str, T]\<close>: a dictionary each of whose values validates as \<^verbatim>\<open>T\<close>.\<close>

definition validate_dict :: "coercion \<Rightarrow> (pyval \<Rightarrow> 'a option) \<Rightarrow> pyval \<Rightarrow> (string \<times> 'a) list option" where
  "validate_dict L f v =
     Option.bind (case v of PDict kvs \<Rightarrow> Some kvs | _ \<Rightarrow> to_dict L v)
       (\<lambda>kvs. those (map (\<lambda>(k, x). map_option (Pair k) (f x)) kvs))"

text \<open>\<^verbatim>\<open>List[T]\<close>: a list each of whose elements validates as \<^verbatim>\<open>T\<close>.\<close>

definition validate_list :: "coercion \<Rightarrow> (pyval \<Rightarrow> 'a option) \<Rightarrow> pyval \<Rightarrow> 'a list option" where
  "validate_list L f v =
     Option.bind (case v of PList xs \<Rightarrow> Some xs | _ \<Rightarrow> to_list L v)
       (\<lambda>xs. those (map f xs))"

text \<open>A field without a default must be present; its value is validated.\<close>

definition required :: "(pyval \<Rightarrow> 'a option) \<Rightarrow> pydict \<Rightarrow> string \<Rightarrow> 'a option" where
  "required f d k = Option.bind (map_of d k) f"

text \<open>
  A field annotated \<^verbatim>\<open>Optional[T] = None\<close>: absent or \<^verbatim>\<open>None\<close> gives \<^verbatim>\<open>None\<close>; any
  other value is validated as \<^verbatim>\<open>T\<close>.
\<close>

definition optional :: "(pyval \<Rightarrow> 'a option) \<Rightarrow> pydict \<Rightarrow> string \<Rightarrow> 'a option option" where
  "optional f d k =
     (case map_of d k of
        None \<Rightarrow> Some None
      | Some v \<Rightarrow> if v = PNone then Some None else map_option Some (f v))"

record Content =
  Content_id :: string
  Content_user_id :: string
  Content_filename :: string
  Content_original_text :: string
  Content_transformed_text :: "string option"
  Content_upload_date :: string
  Content_last_updated :: string
  Content_status :: string
  Content_file_size :: int
  Content_file_type :: string
  Content_s3_key :: string
  Content_upload_metadata :: "pydict option"
  Content_validation_checks :: "(string \<times> bool) list option"
  Content_upload_completed :: "string option"
  Content_actual_file_size :: "int option"

record Submission =
  Submission_id :: string
  Submission_content_id :: string
  Submission_provider :: string
  Submission_status :: string
  Submission_submitted_at :: string
  Submission_response_data :: "pydict option"
  Submission_cost_estimate :: "pyfloat option"
  Submission_error_message :: "string option"

record TransformationResult =
  TransformationResult_success :: bool
  TransformationResult_transformed_text :: "string option"
  TransformationResult_chunks :: "string list option"
  TransformationResult_company_info :: "pydict option"
  TransformationResult_faqs :: "pydict list option"
  TransformationResult_error :: "string option"

record AnalyticsData =
  AnalyticsData_total_content :: int
  AnalyticsData_total_submissions :: int
  AnalyticsData_successful_submissions :: int
  AnalyticsData_failed_submissions :: int
  AnalyticsData_total_costs :: pyfloat
  AnalyticsData_recent_activity :: "pydict list"
  AnalyticsData_content_status_breakdown :: "(string \<times> int) list"
  AnalyticsData_submission_provider_breakdown :: "(string \<times> int) list"
  AnalyticsData_monthly_trends :: pydict
  AnalyticsData_average_cost_per_submission :: pyfloat
  AnalyticsData_success_rate :: pyfloat

text \<open>
  Field validation of each model, in declaration order. The result is \<^term>\<open>None\<close> as soon
  as one field is rejected.
\<close>

definition Content_fields :: "coercion \<Rightarrow> pydict \<Rightarrow> Content option" where
  "Content_fields L d =
     Option.bind (required (validate_str L) d ''id'') (\<lambda>v1.
     Option.bind (required (validate_str L) d ''user_id'') (\<lambda>v2.
     Option.bind (required (validate_str L) d ''filename'') (\<lambda>v3.
     Option.bind (required (validate_str L) d ''original_text'') (\<lambda>v4.
     Option.bind (optional (validate_str L) d ''transformed_text'') (\<lambda>v5.
     Option.bind (required (validate_str L) d ''upload_date'') (\<lambda>v6.
     Option.bind (required (validate_str L) d ''last_updated'') (\<lambda>v7.
     Option.bind (required (validate_str L) d ''status'') (\<lambda>v8.
     Option.bind (required (validate_int L) d ''file_size'') (\<lambda>v9.
     Option.bind (required (validate_str L) d ''file_type'') (\<lambda>v10.
     Option.bind (required (validate_str L) d ''s3_key'') (\<lambda>v11.
     Option.bind (optional (validate_dict L validate_any) d ''upload_metadata'') (\<lambda>v12.
     Option.bind (optional (validate_dict L (validate_bool L)) d ''validation_checks'') (\<lambda>v13.
     Option.bind (optional (validate_str L) d ''upload_completed'') (\<lambda>v14.
     Option.bind (optional (validate_int L) d ''actual_file_size'') (\<lambda>v15.
     Some \<lparr>Content_id = v1, Content_user_id = v2, Content_filename = v3,
           Content_original_text = v4, Content_transformed_text = v5,
           Content_upload_date = v6, Content_last_updated = v7, Content_status = v8,
           Content_file_size = v9, Content_file_type = v10, Content_s3_key = v11,
           Content_upload_metadata = v12, Content_validation_checks = v13,
           Content_upload_completed = v14,
           Content_actual_file_size = v15\<rparr>)))))))))))))))"

definition Submission_fields :: "coercion \<Rightarrow> pydict \<Rightarrow> Submission option" where
  "Submission_fields L d =
     Option.bind (required (validate_str L) d ''id'') (\<lambda>v1.
     Option.bind (required (validate_str L) d ''content_id'') (\<lambda>v2.
     Option.bind (required (validate_str L) d ''provider'') (\<lambda>v3.
     Option.bind (required (validate_str L) d ''status'') (\<lambda>v4.
     Option.bind (required (validate_str L) d ''submitted_at'') (\<lambda>v5.
     Option.bind (optional (validate_dict L validate_any) d ''response_data'') (\<lambda>v6.
     Option.bind (optional (validate_float L) d ''cost_estimate'') (\<lambda>v7.
     Option.bind (optional (validate_str L) d ''error_message'') (\<lambda>v8.
     Some \<lparr>Submission_id = v1, Submission_content_id = v2, Submission_provider = v3,
           Submission_status = v4, Submission_submitted_at = v5,
           Submission_response_data = v6, Submission_cost_estimate = v7,
           Submission_error_message = v8\<rparr>))))))))"

definition TransformationResult_fields :: "coercion \<Rightarrow> pydict \<Rightarrow> TransformationResult option" where
  "TransformationResult_fields L d =
     Option.bind (required (validate_bool L) d ''success'') (\<lambda>v1.
     Option.bind (optional (validate_str L) d ''transformed_text'') (\<lambda>v2.
     Option.bind (optional (validate_list L (validate_str L)) d ''chunks'') (\<lambda>v3.
     Option.bind (optional (validate_dict L validate_any) d ''company_info'') (\<lambda>v4.
     Option.bind (optional (validate_list L (validate_dict L validate_any)) d ''faqs'') (\<lambda>v5.
     Option.bind (optional (validate_str L) d ''error'') (\<lambda>v6.
     Some \<lparr>TransformationResult_success = v1, TransformationResult_transformed_text = v2,
           TransformationResult_chunks = v3, TransformationResult_company_info = v4,
           TransformationResult_faqs = v5, TransformationResult_error = v6\<rparr>))))))"

definition AnalyticsData_fields :: "coercion \<Rightarrow> pydict \<Rightarrow> AnalyticsData option" where
  "AnalyticsData_fields L d =
     Option.bind (required (validate_int L) d ''total_content'') (\<lambda>v1.
     Option.bind (required (validate_int L) d ''total_submissions'') (\<lambda>v2.
     Option.bind (required (validate_int L) d ''successful_submissions'') (\<lambda>v3.
     Option.bind (required (validate_int L) d ''failed_submissions'') (\<lambda>v4.
     Option.bind (required (validate_float L) d ''total_costs'') (\<lambda>v5.
     Option.bind (required (validate_list L (validate_dict L validate_any)) d ''recent_activity'') (\<lambda>v6.
     Option.bind (required (validate_dict L (validate_int L)) d ''content_status_breakdown'') (\<lambda>v7.
     Option.bind (required (validate_dict L (validate_int L)) d ''submission_provider_breakdown'') (\<lambda>v8.
     Option.bind (required (validate_dict L validate_any) d ''monthly_trends'') (\<lambda>v9.
     Option.bind (required (validate_float L) d ''average_cost_per_submission'') (\<lambda>v10.
     Option.bind (required (validate_float L) d ''success_rate'') (\<lambda>v11.
     Some \<lparr>AnalyticsData_total_content = v1, AnalyticsData_total_submissions = v2,
           AnalyticsData_successful_submissions = v3, AnalyticsData_failed_submissions = v4,
           AnalyticsData_total_costs = v5, AnalyticsData_recent_activity = v6,
           AnalyticsData_content_status_breakdown = v7,
           AnalyticsData_submission_provider_breakdown = v8,
           AnalyticsData_monthly_trends = v9,
           AnalyticsData_average_cost_per_submission = v10,
           AnalyticsData_success_rate = v11\<rparr>)))))))))))"

section \<open>HTTP responses and exceptions.py\<close>

text \<open>
  What \<^verbatim>\<open>response.json()\<close> does is decided by the requests library and the body:
  it returns the decoded value, or raises. From requests 2.27 on the exception is
  \<^verbatim>\<open>requests.exceptions.JSONDecodeError\<close>, a \<^verbatim>\<open>RequestException\<close>; older versions
  (setup.py admits 2.25.0) raise a plain \<^verbatim>\<open>ValueError\<close>.
\<close>

datatype json_result =
    Json pyval
  | JsonRequestError string
  | JsonValueError string

record response =
  status_code :: int
  reason :: string
  url :: string
  body_text :: string
  json :: json_result

text \<open>
  The exceptions an operation can end with: the SDK's own classes of exceptions.py
  (\<^verbatim>\<open>APIError\<close> carries a message, an optional status code and an optional response),
  and the foreign ones that pass through uncaught.
\<close>

datatype error =
    AuthenticationError string
  | APIError string "int option" "response option"
  | ContentNotFoundError string
  | FileNotFoundError string
  | OSError string
  | PydanticValidationError
  | RequestException string
  | ValueError string
  | TypeError
  | AttributeError

text \<open>
  \<^verbatim>\<open>Model(**data)\<close>: unpacking with \<^verbatim>\<open>**\<close> needs a mapping (anything else is a
  \<^verbatim>\<open>TypeError\<close>); then the fields are validated.
\<close>

definition Content_new :: "coercion \<Rightarrow> pyval \<Rightarrow> error + Content" where
  "Content_new L data =
     (case data of
        PDict d \<Rightarrow> (case Content_fields L d of Some c \<Rightarrow> Inr c | None \<Rightarrow> Inl PydanticValidationError)
      | _ \<Rightarrow> Inl TypeError)"

definition Submission_new :: "coercion \<Rightarrow> pyval \<Rightarrow> error + Submission" where
  "Submission_new L data =
     (case data of
        PDict d \<Rightarrow> (case Submission_fields L d of Some c \<Rightarrow> Inr c | None \<Rightarrow> Inl PydanticValidationError)
      | _ \<Rightarrow> Inl TypeError)"

definition TransformationResult_new :: "coercion \<Rightarrow> pyval \<Rightarrow> error + TransformationResult" where
  "TransformationResult_new L data =
     (case data of
        PDict d \<Rightarrow> (case TransformationResult_fields L d of Some c \<Rightarrow> Inr c | None \<Rightarrow> Inl PydanticValidationError)
      | _ \<Rightarrow> Inl TypeError)"

definition AnalyticsData_new :: "coercion \<Rightarrow> pyval \<Rightarrow> error + AnalyticsData" where
  "AnalyticsData_new L data =
     (case data of
        PDict d \<Rightarrow> (case AnalyticsData_fields L d of Some c \<Rightarrow> Inr c | None \<Rightarrow> Inl PydanticValidationError)
      | _ \<Rightarrow> Inl TypeError)"

section \<open>The environment of a client\<close>

text \<open>
  A request as the client hands it to the requests library, and what comes back: a
  response, or a \<^verbatim>\<open>RequestException\<close> when there is none (connection refused, timeout).
\<close>

record request =
  req_method :: string
  req_url :: string
  req_params :: pydict
  req_headers :: "(string \<times> string) list"
  req_files :: "(string \<times> string \<times> string) list"
  req_data :: pydict

datatype net_outcome =
    Responded response
  | RequestFailed string

text \<open>
  What is at a local path that exists: something \<^verbatim>\<open>open(path, 'rb')\<close> can read, with
  its content, or something it raises an \<^verbatim>\<open>OSError\<close> for (a directory:
  \<^verbatim>\<open>IsADirectoryError\<close>, or \<^verbatim>\<open>PermissionError\<close> on Windows; a file the process may not
  read: \<^verbatim>\<open>PermissionError\<close>).
\<close>

datatype fsnode =
    Readable string
  | Unreadable

text \<open>
  The world an operation runs in: the process environment, the local file system, the
  remote server, the installed pydantic, and the log of the network calls made so far.
  An operation takes the world and returns its result with the world after it; the only
  thing an operation changes is the log, to which every network call is appended.
\<close>

record world =
  environ :: "string \<rightharpoonup> string"
  filesystem :: "string \<rightharpoonup> fsnode"
  server :: "request \<Rightarrow> net_outcome"
  pydantic :: coercion
  calls :: "request list"

section \<open>client.py\<close>

text \<open>
  What a constructed client holds: the base URL, the token, and the headers of its
  session. The headers are those the constructor sets; the defaults that a session of the
  requests library starts with (none of them \<^verbatim>\<open>Content-Type\<close>) are left out.
\<close>

record HaiBlockClient =
  api_url :: string
  auth_token :: string
  session_headers :: "(string \<times> string) list"

text \<open>
  Python's \<^verbatim>\<open>a or b\<close> on an optional string: \<^verbatim>\<open>a\<close> when it is a non-empty string,
  else \<^verbatim>\<open>b\<close>.
\<close>

definition py_or :: "string option \<Rightarrow> string option \<Rightarrow> string option" where
  "py_or a b = (case a of Some s \<Rightarrow> if s \<noteq> [] then Some s else b | None \<Rightarrow> b)"

definition getenv :: "world \<Rightarrow> string \<Rightarrow> string option" where
  "getenv w k = environ w k"

definition getenv_default :: "world \<Rightarrow> string \<Rightarrow> string \<Rightarrow> string" where
  "getenv_default w k dflt = (case environ w k of Some v \<Rightarrow> v | None \<Rightarrow> dflt)"

definition HaiBlockClient_init ::
  "string option \<Rightarrow> string option \<Rightarrow> world \<Rightarrow> (error + HaiBlockClient) \<times> world" where
  "HaiBlockClient_init api_url_arg auth_token_arg w =
     (case py_or auth_token_arg (getenv w ''HAIBLOCK_AUTH_TOKEN'') of
        None \<Rightarrow>
          (Inl (AuthenticationError ''Auth token is required. Set HAIBLOCK_AUTH_TOKEN environment variable or pass auth_token parameter.''), w)
      | Some tok \<Rightarrow>
          if tok = [] then
            (Inl (AuthenticationError ''Auth token is required. Set HAIBLOCK_AUTH_TOKEN environment variable or pass auth_token parameter.''), w)
          else
            (Inr \<lparr>api_url =
                    (case py_or api_url_arg
                            (Some (getenv_default w ''HAIBLOCK_API_URL'' ''https://api.haiblock.com'')) of
                       Some u \<Rightarrow> u | None \<Rightarrow> []),
                  auth_token = tok,
                  session_headers =
                    [(''Authorization'', ''Bearer '' @ tok),
                     (''Content-Type'', ''application/json''),
                     (''User-Agent'', ''haiblock-python-sdk/0.1.0'')]\<rparr>, w))"

text \<open>
  \<^verbatim>\<open>str(n)\<close> for an integer, and the message of the \<^verbatim>\<open>HTTPError\<close> that
  \<^verbatim>\<open>raise_for_status\<close> of the requests library raises: for a status from 400 to 599
  it is the status, "Client Error" or "Server Error", the reason phrase and the URL; for
  any other status nothing is raised.
\<close>

fun str_nat :: "nat \<Rightarrow> string" where
  "str_nat n = (if n < 10 then [''0123456789'' ! n] else str_nat (n div 10) @ [''0123456789'' ! (n mod 10)])"

declare str_nat.simps [simp del]

definition str_int :: "int \<Rightarrow> string" where
  "str_int i = (if i < 0 then ''-'' @ str_nat (nat (- i)) else str_nat (nat i))"

definition raise_for_status :: "response \<Rightarrow> string option" where
  "raise_for_status r =
     (if 400 \<le> status_code r \<and> status_code r < 500 then
        Some (str_int (status_code r) @ '' Client Error: '' @ reason r @ '' for url: '' @ url r)
      else if 500 \<le> status_code r \<and> status_code r < 600 then
        Some (str_int (status_code r) @ '' Server Error: '' @ reason r @ '' for url: '' @ url r)
      else None)"

definition lstrip :: "char \<Rightarrow> string \<Rightarrow> string" where
  "lstrip c s = dropWhile (\<lambda>x. x = c) s"

text \<open>The request that \<^verbatim>\<open>_make_request\<close> sends through the session.\<close>

definition session_request :: "HaiBlockClient \<Rightarrow> string \<Rightarrow> string \<Rightarrow> pydict \<Rightarrow> request" where
  "session_request cl method endpoint params =
     \<lparr>req_method = method,
      req_url = api_url cl @ ''/'' @ lstrip (CHR ''/'') endpoint,
      req_params = params,
      req_headers = session_headers cl,
      req_files = [],
      req_data = []\<rparr>"

text \<open>
  \<^verbatim>\<open>_make_request\<close>: the \<^verbatim>\<open>try\<close> block sends the request, raises for an error status
  and decodes the body; the first handler classifies an \<^verbatim>\<open>HTTPError\<close> by status; the
  second turns every other \<^verbatim>\<open>RequestException\<close> (no response, or a body that the
  library could not decode) into an \<^verbatim>\<open>APIError\<close> without status code.
\<close>

definition make_request ::
  "HaiBlockClient \<Rightarrow> string \<Rightarrow> string \<Rightarrow> pydict \<Rightarrow> world \<Rightarrow> (error + pyval) \<times> world" where
  "make_request cl method endpoint params w =
     (let rq = session_request cl method endpoint params;
          w' = w\<lparr>calls := calls w @ [rq]\<rparr>
      in case server w rq of
           RequestFailed e \<Rightarrow> (Inl (APIError (''Request failed: '' @ e) None None), w')
         | Responded r \<Rightarrow>
             (case raise_for_status r of
                Some e \<Rightarrow>
                  if status_code r = 401 then
                    (Inl (AuthenticationError ''Invalid or expired authentication token''), w')
                  else if status_code r = 404 then
                    (Inl (ContentNotFoundError ''Requested resource not found''), w')
                  else
                    (Inl (APIError (''API request failed: '' @ e) (Some (status_code r)) (Some r)), w')
              | None \<Rightarrow>
                  (case json r of
                     Json v \<Rightarrow> (Inr v, w')
                   | JsonRequestError e \<Rightarrow> (Inl (APIError (''Request failed: '' @ e) None None), w')
                   | JsonValueError e \<Rightarrow> (Inl (ValueError e), w'))))"

text \<open>
  \<^verbatim>\<open>os.path.basename\<close>: what follows the last slash. \<^verbatim>\<open>os.path.exists\<close> holds of
  whatever is at the path.
\<close>

definition basename :: "string \<Rightarrow> string" where
  "basename p = rev (takeWhile (\<lambda>c. c \<noteq> CHR ''/'') (rev p))"

definition path_exists :: "world \<Rightarrow> string \<Rightarrow> bool" where
  "path_exists w p = (filesystem w p \<noteq> None)"

text \<open>The request that \<^verbatim>\<open>upload_file\<close> posts, outside the session.\<close>

definition upload_request :: "HaiBlockClient \<Rightarrow> string \<Rightarrow> string \<Rightarrow> pydict option \<Rightarrow> request" where
  "upload_request cl file_path content metadata =
     \<lparr>req_method = ''POST'',
      req_url = api_url cl @ ''/upload'',
      req_params = [],
      req_headers = filter (\<lambda>(k, v). k \<noteq> ''Content-Type'') (session_headers cl),
      req_files = [(''file'', basename file_path, content)],
      req_data = (case metadata of
                    None \<Rightarrow> []
                  | Some m \<Rightarrow> if m \<noteq> [] then [(''metadata'', PDict m)] else [])\<rparr>"

text \<open>
  \<^verbatim>\<open>upload_file\<close> does not go through \<^verbatim>\<open>_make_request\<close>: it calls
  \<^verbatim>\<open>requests.post\<close> itself, with no \<^verbatim>\<open>try\<close> around it, and treats every status
  other than 200 alike.
\<close>

definition upload_file ::
  "HaiBlockClient \<Rightarrow> string \<Rightarrow> pydict option \<Rightarrow> world \<Rightarrow> (error + Content) \<times> world" where
  "upload_file cl file_path metadata w =
     (if \<not> path_exists w file_path then
        (Inl (FileNotFoundError (''File not found: '' @ file_path)), w)
      else
        (case filesystem w file_path of
           None \<Rightarrow> (Inl (FileNotFoundError (''File not found: '' @ file_path)), w)
         | Some Unreadable \<Rightarrow> (Inl (OSError file_path), w)
         | Some (Readable content) \<Rightarrow>
             (let rq = upload_request cl file_path content metadata;
                  w' = w\<lparr>calls := calls w @ [rq]\<rparr>
              in case server w rq of
                   RequestFailed e \<Rightarrow> (Inl (RequestException e), w')
                 | Responded r \<Rightarrow>
                     if status_code r \<noteq> 200 then
                       (Inl (APIError (''Upload failed: '' @ body_text r) (Some (status_code r)) (Some r)), w')
                     else
                       (case json r of
                          Json v \<Rightarrow> (Content_new (pydantic w) v, w')
                        | JsonRequestError e \<Rightarrow> (Inl (RequestException e), w')
                        | JsonValueError e \<Rightarrow> (Inl (ValueError e), w')))))"

definition get_content :: "HaiBlockClient \<Rightarrow> string \<Rightarrow> world \<Rightarrow> (error + Content) \<times> world" where
  "get_content cl content_id w =
     (case make_request cl ''GET'' (''/content/'' @ content_id) [] w of
        (Inl e, w') \<Rightarrow> (Inl e, w')
      | (Inr data, w') \<Rightarrow> (Content_new (pydantic w) data, w'))"

text \<open>
  \<^verbatim>\<open>data.get("items", [])\<close> needs a dictionary (no other decoded value has a
  \<^verbatim>\<open>get\<close>); the comprehension then iterates over whatever it found: the elements of a
  list, the keys of a dictionary, the characters of a string; the rest is not iterable.
\<close>

definition py_get :: "pyval \<Rightarrow> string \<Rightarrow> pyval \<Rightarrow> error + pyval" where
  "py_get data k dflt =
     (case data of
        PDict d \<Rightarrow> (case map_of d k of Some v \<Rightarrow> Inr v | None \<Rightarrow> Inr dflt)
      | _ \<Rightarrow> Inl AttributeError)"

definition iterate :: "pyval \<Rightarrow> error + pyval list" where
  "iterate v =
     (case v of
        PList xs \<Rightarrow> Inr xs
      | PDict d \<Rightarrow> Inr (map (\<lambda>(k, x). PStr k) d)
      | PStr s \<Rightarrow> Inr (map (\<lambda>c. PStr [c]) s)
      | _ \<Rightarrow> Inl TypeError)"

fun collect :: "('a \<Rightarrow> error + 'b) \<Rightarrow> 'a list \<Rightarrow> error + 'b list" where
  "collect f [] = Inr []"
| "collect f (x # xs) =
     (case f x of
        Inl e \<Rightarrow> Inl e
      | Inr y \<Rightarrow> (case collect f xs of Inl e \<Rightarrow> Inl e | Inr ys \<Rightarrow> Inr (y # ys)))"

definition comprehension :: "(pyval \<Rightarrow> error + 'b) \<Rightarrow> pyval \<Rightarrow> error + 'b list" where
  "comprehension f data =
     (case py_get data ''items'' (PList []) of
        Inl e \<Rightarrow> Inl e
      | Inr items \<Rightarrow> (case iterate items of Inl e \<Rightarrow> Inl e | Inr xs \<Rightarrow> collect f xs))"

definition list_content :: "HaiBlockClient \<Rightarrow> int \<Rightarrow> int \<Rightarrow> world \<Rightarrow> (error + Content list) \<times> world" where
  "list_content cl limit offset w =
     (case make_request cl ''GET'' ''/content'' [(''limit'', PInt limit), (''offset'', PInt offset)] w of
        (Inl e, w') \<Rightarrow> (Inl e, w')
      | (Inr data, w') \<Rightarrow> (comprehension (Content_new (pydantic w)) data, w'))"

definition transform_content ::
  "HaiBlockClient \<Rightarrow> string \<Rightarrow> world \<Rightarrow> (error + TransformationResult) \<times> world" where
  "transform_content cl content_id w =
     (case make_request cl ''POST'' (''/content/'' @ content_id @ ''/transform'') [] w of
        (Inl e, w') \<Rightarrow> (Inl e, w')
      | (Inr data, w') \<Rightarrow> (TransformationResult_new (pydantic w) data, w'))"

definition submit_to_model ::
  "HaiBlockClient \<Rightarrow> string \<Rightarrow> string \<Rightarrow> world \<Rightarrow> (error + Submission) \<times> world" where
  "submit_to_model cl content_id provider w =
     (case make_request cl ''POST'' (''/content/'' @ content_id @ ''/submit/'' @ provider) [] w of
        (Inl e, w') \<Rightarrow> (Inl e, w')
      | (Inr data, w') \<Rightarrow> (Submission_new (pydantic w) data, w'))"

definition get_submission :: "HaiBlockClient \<Rightarrow> string \<Rightarrow> world \<Rightarrow> (error + Submission) \<times> world" where
  "get_submission cl submission_id w =
     (case make_request cl ''GET'' (''/submissions/'' @ submission_id) [] w of
        (Inl e, w') \<Rightarrow> (Inl e, w')
      | (Inr data, w') \<Rightarrow> (Submission_new (pydantic w) data, w'))"

definition list_submissions ::
  "HaiBlockClient \<Rightarrow> string option \<Rightarrow> int \<Rightarrow> int \<Rightarrow> world \<Rightarrow> (error + Submission list) \<times> world" where
  "list_submissions cl content_id limit offset w =
     (let params = [(''limit'', PInt limit), (''offset'', PInt offset)] @
                   (case content_id of
                      None \<Rightarrow> []
                    | Some c \<Rightarrow> if c \<noteq> [] then [(''content_id'', PStr c)] else [])
      in case make_request cl ''GET'' ''/submissions'' params w of
           (Inl e, w') \<Rightarrow> (Inl e, w')
         | (Inr data, w') \<Rightarrow> (comprehension (Submission_new (pydantic w)) data, w'))"

definition get_analytics :: "HaiBlockClient \<Rightarrow> world \<Rightarrow> (error + AnalyticsData) \<times> world" where
  "get_analytics cl w =
     (case make_request cl ''GET'' ''/analytics'' [] w of
        (Inl e, w') \<Rightarrow> (Inl e, w')
      | (Inr data, w') \<Rightarrow> (AnalyticsData_new (pydantic w) data, w'))"

definition delete_content :: "HaiBlockClient \<Rightarrow> string \<Rightarrow> world \<Rightarrow> (error + bool) \<times> world" where
  "delete_content cl content_id w =
     (case make_request cl ''DELETE'' (''/content/'' @ content_id) [] w of
        (Inl e, w') \<Rightarrow> (Inl e, w')
      | (Inr data, w') \<Rightarrow> (Inr True, w'))"

text \<open>Whether one string occurs in another as a contiguous piece.\<close>

primrec occurs_in :: "string \<Rightarrow> string \<Rightarrow> bool" where
  "occurs_in s [] = (s = [])"
| "occurs_in s (c # cs) = (take (length s) (c # cs) = s \<or> occurs_in s cs)"

section \<open>Models as dictionaries\<close>








section \<open>Payloads that match a model\<close>












section \<open>Concrete inputs\<close>

text \<open>
  The inputs the closed theorems below run on, taken from tests/test_client.py where the
  tests have them: the client of \<^verbatim>\<open>setup_method\<close>, the second item of
  \<^verbatim>\<open>test_list_content_success\<close> (whose status is \<^verbatim>\<open>processed\<close>), the pending
  submission of \<^verbatim>\<open>test_submit_to_bedrock_success\<close>, and a world whose server gives one
  fixed answer. \<^term>\<open>strict\<close> is a pydantic that converts nothing.
\<close>

definition strict :: coercion where
  "strict = \<lparr>to_str = (\<lambda>v. None), to_int = (\<lambda>v. None), to_float = (\<lambda>v. None),
             to_bool = (\<lambda>v. None), to_dict = (\<lambda>v. None), to_list = (\<lambda>v. None)\<rparr>"

definition test_client :: HaiBlockClient where
  "test_client =
     \<lparr>api_url = ''https://api.test.haiblock.com'',
      auth_token = ''test-token'',
      session_headers =
        [(''Authorization'', ''Bearer test-token''),
         (''Content-Type'', ''application/json''),
         (''User-Agent'', ''haiblock-python-sdk/0.1.0'')]\<rparr>"

definition answering :: "net_outcome \<Rightarrow> world" where
  "answering a =
     \<lparr>environ = Map.empty,
      filesystem = [''/tmp/test.txt'' \<mapsto> Readable ''test content'', ''/tmp'' \<mapsto> Unreadable],
      server = (\<lambda>rq. a),
      pydantic = strict,
      calls = []\<rparr>"

definition content_2 :: pydict where
  "content_2 =
     [(''id'', PStr ''content-2''),
      (''user_id'', PStr ''user-123''),
      (''filename'', PStr ''test2.txt''),
      (''original_text'', PStr ''content 2''),
      (''upload_date'', PStr ''2025-01-01T00:00:00Z''),
      (''last_updated'', PStr ''2025-01-01T00:00:00Z''),
      (''status'', PStr ''processed''),
      (''file_size'', PInt 2000),
      (''file_type'', PStr ''text/plain''),
      (''s3_key'', PStr ''uploads/test2.txt'')]"

definition content_2_decoded :: Content where
  "content_2_decoded =
     \<lparr>Content_id = ''content-2'', Content_user_id = ''user-123'',
      Content_filename = ''test2.txt'', Content_original_text = ''content 2'',
      Content_transformed_text = None,
      Content_upload_date = ''2025-01-01T00:00:00Z'',
      Content_last_updated = ''2025-01-01T00:00:00Z'', Content_status = ''processed'',
      Content_file_size = 2000, Content_file_type = ''text/plain'',
      Content_s3_key = ''uploads/test2.txt'', Content_upload_metadata = None,
      Content_validation_checks = None, Content_upload_completed = None,
      Content_actual_file_size = None\<rparr>"

definition submission_123 :: pydict where
  "submission_123 =
     [(''id'', PStr ''submission-123''),
      (''content_id'', PStr ''test-content-id''),
      (''provider'', PStr ''bedrock''),
      (''status'', PStr ''pending''),
      (''submitted_at'', PStr ''2025-01-01T00:00:00Z'')]"

definition submission_123_decoded :: Submission where
  "submission_123_decoded =
     \<lparr>Submission_id = ''submission-123'', Submission_content_id = ''test-content-id'',
      Submission_provider = ''bedrock'', Submission_status = ''pending'',
      Submission_submitted_at = ''2025-01-01T00:00:00Z'',
      Submission_response_data = None, Submission_cost_estimate = None,
      Submission_error_message = None\<rparr>"

definition respond :: "int \<Rightarrow> string \<Rightarrow> string \<Rightarrow> string \<Rightarrow> json_result \<Rightarrow> response" where
  "respond code phrase address body decoded =
     \<lparr>status_code = code, reason = phrase, url = address, body_text = body, json = decoded\<rparr>"

definition unauthorized :: response where
  "unauthorized =
     respond 401 ''Unauthorized'' ''https://api.test.haiblock.com/upload'' ''Unauthorized''
       (JsonRequestError ''Expecting value: line 1 column 1 (char 0)'')"

definition not_found :: response where
  "not_found =
     respond 404 ''Not Found'' ''https://api.test.haiblock.com/content/test-content-id''
       ''no such content'' (JsonRequestError ''Expecting value: line 1 column 1 (char 0)'')"

definition server_error :: response where
  "server_error =
     respond 500 ''Internal Server Error'' ''https://api.test.haiblock.com/analytics''
       ''database unavailable'' (JsonRequestError ''Expecting value: line 1 column 1 (char 0)'')"

definition no_content :: response where
  "no_content =
     respond 204 ''No Content'' ''https://api.test.haiblock.com/content/test-content-id'' []
       (JsonRequestError ''Expecting value: line 1 column 1 (char 0)'')"

definition ok_json :: "pyval \<Rightarrow> response" where
  "ok_json v = respond 200 ''OK'' ''https://api.test.haiblock.com/'' ''(json)'' (Json v)"

text \<open>The exception an operation ended with, if it raised.\<close>

definition raised :: "(error + 'a) \<times> world \<Rightarrow> error option" where
  "raised out = (case fst out of Inl e \<Rightarrow> Some e | Inr x \<Rightarrow> None)"

text \<open>
  The answer of \<^verbatim>\<open>test_get_analytics_success\<close>; its floats 1.25, 0.125 and 0.8 are
  written as the doubles they decode to.
\<close>

definition analytics_example :: pydict where
  "analytics_example =
     [(''total_content'', PInt 5),
      (''total_submissions'', PInt 10),
      (''successful_submissions'', PInt 8),
      (''failed_submissions'', PInt 2),
      (''total_costs'', PFloat (Float64 0x3FF4000000000000)),
      (''recent_activity'', PList []),
      (''content_status_breakdown'', PDict [(''uploaded'', PInt 3), (''processed'', PInt 2)]),
      (''submission_provider_breakdown'', PDict [(''bedrock'', PInt 10)]),
      (''monthly_trends'', PDict []),
      (''average_cost_per_submission'', PFloat (Float64 0x3FC0000000000000)),
      (''success_rate'', PFloat (Float64 0x3FE999999999999A))]"

definition analytics_example_decoded :: AnalyticsData where
  "analytics_example_decoded =
     \<lparr>AnalyticsData_total_content = 5, AnalyticsData_total_submissions = 10,
      AnalyticsData_successful_submissions = 8, AnalyticsData_failed_submissions = 2,
      AnalyticsData_total_costs = Float64 0x3FF4000000000000,
      AnalyticsData_recent_activity = [],
      AnalyticsData_content_status_breakdown = [(''uploaded'', 3), (''processed'', 2)],
      AnalyticsData_submission_provider_breakdown = [(''bedrock'', 10)],
      AnalyticsData_monthly_trends = [],
      AnalyticsData_average_cost_per_submission = Float64 0x3FC0000000000000,
      AnalyticsData_success_rate = Float64 0x3FE999999999999A\<rparr>"



section \<open>Facts about the model layer\<close>













lemma required_other: "k \<noteq> k' \<Longrightarrow> required f ((k', v) # d) k = required f d k"
  by (simp add: required_def)

lemma optional_other: "k \<noteq> k' \<Longrightarrow> optional f ((k', v) # d) k = optional f d k"
  by (simp add: optional_def)

lemma required_str_here: "required (validate_str L) ((k, PStr s) # d) k = Some s"
  by (simp add: required_def validate_str_def)

lemma Content_fields_status:
  assumes "Content_fields L d = Some c"
  shows "Content_fields L ((''status'', PStr s) # d) = Some (c\<lparr>Content_status := s\<rparr>)"
  using assms
  by (auto simp: Content_fields_def required_other optional_other required_str_here
        bind_eq_Some_conv)

lemma Submission_fields_status:
  assumes "Submission_fields L d = Some c"
  shows "Submission_fields L ((''status'', PStr s) # d) = Some (c\<lparr>Submission_status := s\<rparr>)"
  using assms
  by (auto simp: Submission_fields_def required_other optional_other required_str_here
        bind_eq_Some_conv)

lemma Content_new_content_2: "Content_new strict (PDict content_2) = Inr content_2_decoded"
  by (simp add: Content_new_def Content_fields_def content_2_def content_2_decoded_def
        required_def optional_def validate_str_def validate_int_def)

lemma Submission_new_submission_123:
  "Submission_new strict (PDict submission_123) = Inr submission_123_decoded"
  by (simp add: Submission_new_def Submission_fields_def submission_123_def
        submission_123_decoded_def required_def optional_def validate_str_def)

text \<open>
  C1, as the claim states it, fails. The second item of the list in
  \<^verbatim>\<open>test_list_content_success\<close> has the status \<^verbatim>\<open>processed\<close>, which is not one of
  uploaded, processing, transformed, submitted, error; it decodes to a Content with that
  status (the test asserts as much). A Submission with the status \<^verbatim>\<open>queued\<close>, outside
  pending, submitted, success, error, decodes as well.
\<close>

theorem status_outside_enum_is_accepted:
  "Content_new strict (PDict content_2) = Inr content_2_decoded
   \<and> Content_status content_2_decoded = ''processed''
   \<and> ''processed'' \<notin> set [''uploaded'', ''processing'', ''transformed'', ''submitted'', ''error'']
   \<and> Submission_new strict (PDict ((''status'', PStr ''queued'') # submission_123))
       = Inr (submission_123_decoded\<lparr>Submission_status := ''queued''\<rparr>)
   \<and> ''queued'' \<notin> set [''pending'', ''submitted'', ''success'', ''error'']"
proof -
  have "Submission_fields strict submission_123 = Some submission_123_decoded"
    using Submission_new_submission_123
    by (simp add: Submission_new_def split: option.splits)
  then have "Submission_new strict (PDict ((''status'', PStr ''queued'') # submission_123))
       = Inr (submission_123_decoded\<lparr>Submission_status := ''queued''\<rparr>)"
    by (simp add: Submission_new_def Submission_fields_status)
  then show ?thesis
    by (simp add: Content_new_content_2) (simp add: content_2_decoded_def)
qed

text \<open>
  C1, amended. The status of a Content and of a Submission is an unconstrained string
  field: if a payload decodes, then the same payload with its status set to any string
  \<open>s\<close> whatever decodes too, to the same entity with the status \<open>s\<close>. Decoding never
  compares the status with the values listed in the comments of models.py.
\<close>

theorem status_is_any_string:
  "(Content_new L (PDict d) = Inr c \<longrightarrow>
      Content_new L (PDict ((''status'', PStr s) # d)) = Inr (c\<lparr>Content_status := s\<rparr>))
   \<and> (Submission_new L (PDict d') = Inr c' \<longrightarrow>
      Submission_new L (PDict ((''status'', PStr s) # d')) = Inr (c'\<lparr>Submission_status := s\<rparr>))"
  by (auto simp: Content_new_def Submission_new_def Content_fields_status
        Submission_fields_status split: option.splits)

theorem status_is_any_string_witness:
  "Content_new strict (PDict content_2) = Inr content_2_decoded
   \<and> Content_new strict (PDict ((''status'', PStr ''archived'') # content_2))
       = Inr (content_2_decoded\<lparr>Content_status := ''archived''\<rparr>)
   \<and> Submission_new strict (PDict submission_123) = Inr submission_123_decoded
   \<and> Submission_new strict (PDict ((''status'', PStr ''archived'') # submission_123))
       = Inr (submission_123_decoded\<lparr>Submission_status := ''archived''\<rparr>)"
  using status_is_any_string [of strict content_2 content_2_decoded "''archived''"
          submission_123 submission_123_decoded]
  by (simp add: Content_new_content_2 Submission_new_submission_123)
























section \<open>Facts about the client\<close>

lemma str_int_3_digits: "str_int 401 = ''401''" "str_int 404 = ''404''" "str_int 500 = ''500''"
  by (simp_all add: str_int_def str_nat.simps)

lemma make_request_500:
  assumes "server w (session_request cl m e ps) = Responded r" and "status_code r = 500"
  shows "fst (make_request cl m e ps w) =
           Inl (APIError (''API request failed: 500 Server Error: '' @ reason r @ '' for url: '' @ url r)
                  (Some 500) (Some r))"
  using assms by (simp add: make_request_def Let_def raise_for_status_def str_int_3_digits)

lemma make_request_json:
  assumes "server w (session_request cl m e ps) = Responded r"
    and "\<not> (400 \<le> status_code r \<and> status_code r < 600)" and "json r = Json v"
  shows "fst (make_request cl m e ps w) = Inr v"
  using assms by (auto simp: make_request_def Let_def raise_for_status_def)

lemma occurs_in_Nil: "occurs_in [] t"
  by (cases t) simp_all

lemma occurs_in_prefix: "occurs_in s (s @ t)"
  by (cases s) (simp_all add: occurs_in_Nil)

lemma occurs_in_append: "occurs_in s (p @ s @ t)"
  by (induction p) (simp_all add: occurs_in_prefix)

lemma occurs_in_suffix: "occurs_in s (p @ s)"
  using occurs_in_append [of s p "[]"] by simp

text \<open>
  C4. Constructing the client with no \<^verbatim>\<open>auth_token\<close> argument while
  \<^verbatim>\<open>HAIBLOCK_AUTH_TOKEN\<close> is not set raises \<^verbatim>\<open>AuthenticationError\<close>, and the world after
  the call is the world before it: in particular no network call has been logged.
\<close>

theorem init_without_token_fails:
  "environ w ''HAIBLOCK_AUTH_TOKEN'' = None \<Longrightarrow>
   fst (HaiBlockClient_init api_url_arg None w) =
     Inl (AuthenticationError ''Auth token is required. Set HAIBLOCK_AUTH_TOKEN environment variable or pass auth_token parameter.'')
   \<and> snd (HaiBlockClient_init api_url_arg None w) = w
   \<and> calls (snd (HaiBlockClient_init api_url_arg None w)) = calls w"
  by (simp add: HaiBlockClient_init_def py_or_def getenv_def)

theorem init_without_token_fails_witness:
  "environ (answering (RequestFailed ''unreachable'')) ''HAIBLOCK_AUTH_TOKEN'' = None
   \<and> fst (HaiBlockClient_init (Some ''https://api.test.com'') None (answering (RequestFailed ''unreachable''))) =
       Inl (AuthenticationError ''Auth token is required. Set HAIBLOCK_AUTH_TOKEN environment variable or pass auth_token parameter.'')
   \<and> calls (snd (HaiBlockClient_init (Some ''https://api.test.com'') None (answering (RequestFailed ''unreachable'')))) = []"
proof -
  have h: "environ (answering (RequestFailed ''unreachable'')) ''HAIBLOCK_AUTH_TOKEN'' = None"
    by (simp add: answering_def)
  have "calls (answering (RequestFailed ''unreachable'')) = []"
    by (simp add: answering_def)
  with h init_without_token_fails [OF h, of "Some ''https://api.test.com''"] show ?thesis
    by simp
qed

text \<open>
  C10. With the empty string as \<^verbatim>\<open>auth_token\<close> and \<^verbatim>\<open>HAIBLOCK_AUTH_TOKEN\<close> not set,
  construction raises \<^verbatim>\<open>AuthenticationError\<close>, as it does with no token at all; and
  whenever construction succeeds, the client's token is not the empty string.
\<close>

theorem init_empty_token_fails:
  "(environ w ''HAIBLOCK_AUTH_TOKEN'' = None \<longrightarrow>
      fst (HaiBlockClient_init api_url_arg (Some []) w) =
        Inl (AuthenticationError ''Auth token is required. Set HAIBLOCK_AUTH_TOKEN environment variable or pass auth_token parameter.'')
      \<and> fst (HaiBlockClient_init api_url_arg (Some []) w) = fst (HaiBlockClient_init api_url_arg None w))
   \<and> (HaiBlockClient_init api_url_arg auth_token_arg w = (Inr cl, w') \<longrightarrow> auth_token cl \<noteq> [])"
  by (auto simp: HaiBlockClient_init_def py_or_def getenv_def split: option.splits if_splits)

theorem init_empty_token_fails_witness:
  "environ (answering (RequestFailed ''unreachable'')) ''HAIBLOCK_AUTH_TOKEN'' = None
   \<and> fst (HaiBlockClient_init (Some ''https://api.test.haiblock.com'') (Some []) (answering (RequestFailed ''unreachable''))) =
       Inl (AuthenticationError ''Auth token is required. Set HAIBLOCK_AUTH_TOKEN environment variable or pass auth_token parameter.'')
   \<and> HaiBlockClient_init (Some ''https://api.test.haiblock.com'') (Some ''test-token'') (answering (RequestFailed ''unreachable''))
       = (Inr test_client, answering (RequestFailed ''unreachable''))
   \<and> auth_token test_client \<noteq> []"
proof -
  have h: "environ (answering (RequestFailed ''unreachable'')) ''HAIBLOCK_AUTH_TOKEN'' = None"
    by (simp add: answering_def)
  have ok: "HaiBlockClient_init (Some ''https://api.test.haiblock.com'') (Some ''test-token'') (answering (RequestFailed ''unreachable''))
       = (Inr test_client, answering (RequestFailed ''unreachable''))"
    by (simp add: HaiBlockClient_init_def py_or_def test_client_def)
  from init_empty_token_fails [of "answering (RequestFailed ''unreachable'')"
         "Some ''https://api.test.haiblock.com''" "Some ''test-token''" test_client
         "answering (RequestFailed ''unreachable'')"] h ok
  show ?thesis by simp
qed

text \<open>
  C7. A 404 answer to any request sent through \<^verbatim>\<open>_make_request\<close> raises
  \<^verbatim>\<open>ContentNotFoundError\<close>; so \<^verbatim>\<open>get_content\<close> and \<^verbatim>\<open>list_content\<close>, the
  content-fetch operations, raise it when the server answers 404.
\<close>

theorem content_fetch_404:
  "(server w (session_request cl m e ps) = Responded r \<and> status_code r = 404 \<longrightarrow>
      raised (make_request cl m e ps w) = Some (ContentNotFoundError ''Requested resource not found''))
   \<and> ((\<forall>rq. server w rq = Responded r) \<and> status_code r = 404 \<longrightarrow>
      raised (get_content cl content_id w) = Some (ContentNotFoundError ''Requested resource not found'')
      \<and> raised (list_content cl limit offset w) = Some (ContentNotFoundError ''Requested resource not found''))"
  by (simp add: raised_def get_content_def list_content_def make_request_def Let_def
        raise_for_status_def)

theorem content_fetch_404_witness:
  "server (answering (Responded not_found)) (session_request test_client ''GET'' ''/content/test-content-id'' [])
     = Responded not_found
   \<and> status_code not_found = 404
   \<and> raised (make_request test_client ''GET'' ''/content/test-content-id'' [] (answering (Responded not_found)))
       = Some (ContentNotFoundError ''Requested resource not found'')
   \<and> raised (get_content test_client ''test-content-id'' (answering (Responded not_found)))
       = Some (ContentNotFoundError ''Requested resource not found'')
   \<and> raised (list_content test_client 50 0 (answering (Responded not_found)))
       = Some (ContentNotFoundError ''Requested resource not found'')"
proof -
  have h: "\<forall>rq. server (answering (Responded not_found)) rq = Responded not_found"
    by (simp add: answering_def)
  have s: "status_code not_found = 404"
    by (simp add: not_found_def respond_def)
  from content_fetch_404 [of "answering (Responded not_found)" test_client "''GET''"
         "''/content/test-content-id''" "[]" not_found "''test-content-id''" 50 0] h s
  show ?thesis by simp
qed

text \<open>
  C5. When the server answers \<^verbatim>\<open>list_content\<close> or \<^verbatim>\<open>list_submissions\<close> with a 2xx
  status and a JSON object that has no \<^verbatim>\<open>items\<close> key, the call returns the empty list.
\<close>

theorem list_without_items:
  assumes "\<forall>rq. server w rq = Responded r"
    and "200 \<le> status_code r" and "status_code r < 300"
    and "json r = Json (PDict d)" and "map_of d ''items'' = None"
  shows "fst (list_content cl limit offset w) = Inr []
         \<and> fst (list_submissions cl content_id limit offset w) = Inr []"
  using assms
  by (simp add: list_content_def list_submissions_def make_request_def Let_def
        raise_for_status_def comprehension_def py_get_def iterate_def)

theorem list_without_items_witness:
  "(\<forall>rq. server (answering (Responded (ok_json (PDict [])))) rq = Responded (ok_json (PDict [])))
   \<and> status_code (ok_json (PDict [])) = 200
   \<and> json (ok_json (PDict [])) = Json (PDict [])
   \<and> map_of ([] :: pydict) ''items'' = None
   \<and> fst (list_content test_client 50 0 (answering (Responded (ok_json (PDict []))))) = Inr []
   \<and> fst (list_submissions test_client None 50 0 (answering (Responded (ok_json (PDict []))))) = Inr []"
proof -
  have h: "\<forall>rq. server (answering (Responded (ok_json (PDict [])))) rq = Responded (ok_json (PDict []))"
    by (simp add: answering_def)
  have s: "status_code (ok_json (PDict [])) = 200" "json (ok_json (PDict [])) = Json (PDict [])"
    by (simp_all add: ok_json_def respond_def)
  have "fst (list_content test_client 50 0 (answering (Responded (ok_json (PDict []))))) = Inr []
        \<and> fst (list_submissions test_client None 50 0 (answering (Responded (ok_json (PDict []))))) = Inr []"
    by (rule list_without_items [OF h, where d = "[]"]) (simp_all add: s)
  with h s show ?thesis by simp
qed




text \<open>
  C2 fails on \<^verbatim>\<open>upload_file\<close>: it posts outside \<^verbatim>\<open>_make_request\<close> and reports every
  status other than 200 as an \<^verbatim>\<open>APIError\<close>. Uploading an existing file to a server that
  answers 401 raises \<^verbatim>\<open>APIError\<close> with the status code 401, not
  \<^verbatim>\<open>AuthenticationError\<close>.
\<close>

theorem upload_file_401_raises_APIError:
  "raised (upload_file test_client ''/tmp/test.txt'' None (answering (Responded unauthorized)))
     = Some (APIError ''Upload failed: Unauthorized'' (Some 401) (Some unauthorized))"
  by (simp add: raised_def upload_file_def path_exists_def answering_def Let_def)
     (simp add: unauthorized_def respond_def)

text \<open>
  C3, as the claim states it, fails: the message of the \<^verbatim>\<open>APIError\<close> that
  \<^verbatim>\<open>_make_request\<close> raises is built from the text of the \<^verbatim>\<open>HTTPError\<close> (status, reason
  phrase, URL), not from the body. \<^verbatim>\<open>get_analytics\<close> against a server that answers 500
  with the body \<^verbatim>\<open>database unavailable\<close> raises an \<^verbatim>\<open>APIError\<close> in whose message the body
  does not occur.
\<close>

theorem message_500_without_body:
  "raised (get_analytics test_client (answering (Responded server_error)))
     = Some (APIError ''API request failed: 500 Server Error: Internal Server Error for url: https://api.test.haiblock.com/analytics''
               (Some 500) (Some server_error))
   \<and> body_text server_error = ''database unavailable''
   \<and> \<not> occurs_in ''database unavailable''
         ''API request failed: 500 Server Error: Internal Server Error for url: https://api.test.haiblock.com/analytics''"
proof -
  have h: "server (answering (Responded server_error))
             (session_request test_client ''GET'' ''/analytics'' []) = Responded server_error"
    by (simp add: answering_def)
  have s: "status_code server_error = 500" "reason server_error = ''Internal Server Error''"
    "url server_error = ''https://api.test.haiblock.com/analytics''"
    "body_text server_error = ''database unavailable''"
    by (simp_all add: server_error_def respond_def)
  have "fst (make_request test_client ''GET'' ''/analytics'' [] (answering (Responded server_error)))
          = Inl (APIError ''API request failed: 500 Server Error: Internal Server Error for url: https://api.test.haiblock.com/analytics''
               (Some 500) (Some server_error))"
    using make_request_500 [OF h s(1)] by (simp add: s)
  then have "raised (get_analytics test_client (answering (Responded server_error)))
     = Some (APIError ''API request failed: 500 Server Error: Internal Server Error for url: https://api.test.haiblock.com/analytics''
               (Some 500) (Some server_error))"
    by (cases "make_request test_client ''GET'' ''/analytics'' [] (answering (Responded server_error))")
       (simp add: raised_def get_analytics_def)
  moreover have "\<not> occurs_in ''database unavailable''
         ''API request failed: 500 Server Error: Internal Server Error for url: https://api.test.haiblock.com/analytics''"
    by simp
  ultimately show ?thesis by (simp add: s)
qed

text \<open>
  C3, amended. A 500 answer makes the operation raise an \<^verbatim>\<open>APIError\<close> whose status code
  is 500 and which carries the response itself (and with it the body). Through
  \<^verbatim>\<open>_make_request\<close>, hence in every operation but the upload, the message is
  "API request failed: " followed by the text of the \<^verbatim>\<open>HTTPError\<close>; only in
  \<^verbatim>\<open>upload_file\<close> is it "Upload failed: " followed by the body, which therefore occurs
  in it.
\<close>

theorem server_error_500:
  "(let E = Some (APIError (''API request failed: 500 Server Error: '' @ reason r @ '' for url: '' @ url r)
                    (Some 500) (Some r))
    in (server w (session_request cl m e ps) = Responded r \<and> status_code r = 500 \<longrightarrow>
          raised (make_request cl m e ps w) = E)
       \<and> ((\<forall>rq. server w rq = Responded r) \<and> status_code r = 500 \<longrightarrow>
          raised (get_content cl content_id w) = E
          \<and> raised (list_content cl limit offset w) = E
          \<and> raised (transform_content cl content_id w) = E
          \<and> raised (submit_to_model cl content_id provider w) = E
          \<and> raised (get_submission cl submission_id w) = E
          \<and> raised (list_submissions cl filter_id limit offset w) = E
          \<and> raised (get_analytics cl w) = E
          \<and> raised (delete_content cl content_id w) = E))
   \<and> (filesystem w p = Some (Readable content)
        \<and> server w (upload_request cl p content md) = Responded r \<and> status_code r = 500 \<longrightarrow>
      raised (upload_file cl p md w)
        = Some (APIError (''Upload failed: '' @ body_text r) (Some 500) (Some r))
      \<and> occurs_in (body_text r) (''Upload failed: '' @ body_text r))"
  using occurs_in_suffix [of "body_text r" "''Upload failed: ''"]
  by (simp add: Let_def raised_def make_request_def raise_for_status_def str_int_3_digits
        get_content_def list_content_def transform_content_def submit_to_model_def
        get_submission_def list_submissions_def get_analytics_def delete_content_def
        upload_file_def path_exists_def del: occurs_in.simps)

theorem server_error_500_witness:
  "(\<forall>rq. server (answering (Responded server_error)) rq = Responded server_error)
   \<and> status_code server_error = 500
   \<and> filesystem (answering (Responded server_error)) ''/tmp/test.txt'' = Some (Readable ''test content'')
   \<and> raised (make_request test_client ''GET'' ''/analytics'' [] (answering (Responded server_error)))
       = Some (APIError ''API request failed: 500 Server Error: Internal Server Error for url: https://api.test.haiblock.com/analytics''
                 (Some 500) (Some server_error))
   \<and> raised (get_analytics test_client (answering (Responded server_error)))
       = Some (APIError ''API request failed: 500 Server Error: Internal Server Error for url: https://api.test.haiblock.com/analytics''
                 (Some 500) (Some server_error))
   \<and> raised (upload_file test_client ''/tmp/test.txt'' None (answering (Responded server_error)))
       = Some (APIError ''Upload failed: database unavailable'' (Some 500) (Some server_error))"
proof -
  let ?w = "answering (Responded server_error)"
  have h: "\<forall>rq. server ?w rq = Responded server_error"
    and f: "filesystem ?w ''/tmp/test.txt'' = Some (Readable ''test content'')"
    by (simp_all add: answering_def)
  have s: "status_code server_error = 500" "reason server_error = ''Internal Server Error''"
    "url server_error = ''https://api.test.haiblock.com/analytics''"
    "body_text server_error = ''database unavailable''"
    by (simp_all add: server_error_def respond_def)
  from server_error_500 [of server_error ?w test_client "''GET''" "''/analytics''" "[]"
         "''test-content-id''" 50 0 "''bedrock''" "''submission-123''" None
         "''/tmp/test.txt''" "''test content''" None] h f s
  show ?thesis by (simp add: Let_def)
qed

text \<open>
  C9 fails on a successful delete without a body. \<^verbatim>\<open>delete_content\<close> is documented to
  return \<^verbatim>\<open>True\<close> if the deletion was successful, and it never looks at what
  \<^verbatim>\<open>_make_request\<close> returns; but \<^verbatim>\<open>_make_request\<close> decodes the body of every answer
  that is not an error status, and its handler for network failures catches the decoding
  error. A server that answers the delete with 204 and an empty body makes
  \<^verbatim>\<open>delete_content\<close> raise an \<^verbatim>\<open>APIError\<close> "Request failed", although the status is
  2xx and the network did not fail.
\<close>

theorem delete_204_empty_body_raises:
  "server (answering (Responded no_content))
      (session_request test_client ''DELETE'' ''/content/test-content-id'' []) = Responded no_content
   \<and> status_code no_content = 204
   \<and> body_text no_content = []
   \<and> raised (delete_content test_client ''test-content-id'' (answering (Responded no_content)))
       = Some (APIError ''Request failed: Expecting value: line 1 column 1 (char 0)'' None None)"
  by (simp add: raised_def delete_content_def make_request_def Let_def raise_for_status_def
        answering_def no_content_def respond_def)

section \<open>Further facts about the transport\<close>

text \<open>
  A 401 answer to any request sent through \<^verbatim>\<open>_make_request\<close> raises
  \<^verbatim>\<open>AuthenticationError\<close>, and so does each of the eight operations built on it.
\<close>

theorem transport_401:
  "(let E = Some (AuthenticationError ''Invalid or expired authentication token'')
    in (server w (session_request cl m e ps) = Responded r \<and> status_code r = 401 \<longrightarrow>
          raised (make_request cl m e ps w) = E)
       \<and> ((\<forall>rq. server w rq = Responded r) \<and> status_code r = 401 \<longrightarrow>
          raised (get_content cl content_id w) = E
          \<and> raised (list_content cl limit offset w) = E
          \<and> raised (transform_content cl content_id w) = E
          \<and> raised (submit_to_model cl content_id provider w) = E
          \<and> raised (get_submission cl submission_id w) = E
          \<and> raised (list_submissions cl filter_id limit offset w) = E
          \<and> raised (get_analytics cl w) = E
          \<and> raised (delete_content cl content_id w) = E))"
  by (simp add: Let_def raised_def make_request_def raise_for_status_def
        get_content_def list_content_def transform_content_def submit_to_model_def
        get_submission_def list_submissions_def get_analytics_def delete_content_def)

theorem transport_401_witness:
  "(\<forall>rq. server (answering (Responded unauthorized)) rq = Responded unauthorized)
   \<and> status_code unauthorized = 401
   \<and> raised (make_request test_client ''GET'' ''/analytics'' [] (answering (Responded unauthorized)))
       = Some (AuthenticationError ''Invalid or expired authentication token'')
   \<and> raised (get_analytics test_client (answering (Responded unauthorized)))
       = Some (AuthenticationError ''Invalid or expired authentication token'')
   \<and> raised (delete_content test_client ''test-content-id'' (answering (Responded unauthorized)))
       = Some (AuthenticationError ''Invalid or expired authentication token'')"
proof -
  have h: "\<forall>rq. server (answering (Responded unauthorized)) rq = Responded unauthorized"
    by (simp add: answering_def)
  have s: "status_code unauthorized = 401"
    by (simp add: unauthorized_def respond_def)
  from transport_401 [of "answering (Responded unauthorized)" test_client "''GET''"
         "''/analytics''" "[]" unauthorized "''test-content-id''" 50 0 "''bedrock''"
         "''submission-123''" None] h s
  show ?thesis by (simp add: Let_def)
qed

text \<open>
  When there is no response at all, \<^verbatim>\<open>_make_request\<close> raises an \<^verbatim>\<open>APIError\<close> that
  carries neither status code nor response, after exactly one network call.
\<close>

theorem transport_no_response:
  "server w (session_request cl m e ps) = RequestFailed msg \<Longrightarrow>
   raised (make_request cl m e ps w) = Some (APIError (''Request failed: '' @ msg) None None)
   \<and> calls (snd (make_request cl m e ps w)) = calls w @ [session_request cl m e ps]"
  by (simp add: raised_def make_request_def Let_def)

theorem transport_no_response_witness:
  "server (answering (RequestFailed ''connection refused''))
      (session_request test_client ''GET'' ''/analytics'' []) = RequestFailed ''connection refused''
   \<and> raised (make_request test_client ''GET'' ''/analytics'' [] (answering (RequestFailed ''connection refused'')))
       = Some (APIError ''Request failed: connection refused'' None None)
   \<and> calls (snd (make_request test_client ''GET'' ''/analytics'' [] (answering (RequestFailed ''connection refused''))))
       = [session_request test_client ''GET'' ''/analytics'' []]"
proof -
  have h: "server (answering (RequestFailed ''connection refused''))
      (session_request test_client ''GET'' ''/analytics'' []) = RequestFailed ''connection refused''"
    and c: "calls (answering (RequestFailed ''connection refused'')) = []"
    by (simp_all add: answering_def)
  from transport_no_response [OF h] h c show ?thesis by simp
qed

text \<open>
  The example of the tests: \<^verbatim>\<open>get_analytics\<close> against a server that answers 200 with the
  analytics object returns an AnalyticsData whose \<^verbatim>\<open>total_content\<close> is 5 and whose
  \<^verbatim>\<open>success_rate\<close> is 0.8.
\<close>

theorem get_analytics_example:
  "fst (get_analytics test_client (answering (Responded (ok_json (PDict analytics_example)))))
     = Inr analytics_example_decoded
   \<and> AnalyticsData_total_content analytics_example_decoded = 5
   \<and> AnalyticsData_success_rate analytics_example_decoded = Float64 0x3FE999999999999A"
proof -
  have d: "AnalyticsData_new strict (PDict analytics_example) = Inr analytics_example_decoded"
    by (simp add: AnalyticsData_new_def AnalyticsData_fields_def analytics_example_def
          analytics_example_decoded_def required_def validate_int_def validate_float_def
          validate_list_def validate_dict_def validate_any_def)
  have "fst (make_request test_client ''GET'' ''/analytics'' []
               (answering (Responded (ok_json (PDict analytics_example)))))
          = Inr (PDict analytics_example)"
    by (rule make_request_json [where r = "ok_json (PDict analytics_example)"])
       (simp_all add: answering_def ok_json_def respond_def)
  then have "fst (get_analytics test_client (answering (Responded (ok_json (PDict analytics_example)))))
     = Inr analytics_example_decoded"
    by (cases "make_request test_client ''GET'' ''/analytics'' []
               (answering (Responded (ok_json (PDict analytics_example))))")
       (simp add: get_analytics_def d answering_def)
  then show ?thesis by (simp add: analytics_example_decoded_def)
qed

end
